theory Spec2Isabelle
  imports Complex_Main
begin

section \<open>Agricultural monitoring dashboard: data acquisition and remote flag store\<close>

text \<open>
  A shallow embedding of \<^verbatim>\<open>agriculture_monitoring.py\<close>: the geocoding lookup
  (\<^verbatim>\<open>search_address_suggestions\<close>), the weather retrieval
  (\<^verbatim>\<open>fetch_open_meteo_data\<close>), the normalisation of the hourly series
  (\<^verbatim>\<open>process_meteo_data\<close>), the lazily initialised Firebase client
  (\<^verbatim>\<open>get_firebase_app\<close>) and the valve flag read and write.

  Everything outside the Python process (the HTTP services, the credential file, the
  \<^verbatim>\<open>firebase_admin\<close> library, the parsers of \<^verbatim>\<open>pandas\<close> and \<^verbatim>\<open>float\<close>) is a
  parameter of the function that uses it. Everything the process itself keeps or emits
  (the two module globals, the Streamlit session value, the messages written to the page,
  the outbound requests) is a field of the record \<open>world\<close>, passed in and returned.
\<close>

subsection \<open>Python values and exceptions\<close>

text \<open>A scalar of a decoded JSON document: \<^verbatim>\<open>None\<close>, a number or a string.\<close>

datatype cell = JNull | JNum real | JStr string

text \<open>
  The exception classes the handlers of the source tell apart. \<open>Timeout\<close> and
  \<open>HTTPError\<close> are subclasses of \<open>RequestException\<close> in \<^verbatim>\<open>requests\<close>; the
  constructor \<open>RequestException\<close> stands for every other instance of that class
  (connection and DNS failures). \<open>OtherException\<close> is any remaining subclass of
  \<^verbatim>\<open>Exception\<close>.
\<close>

datatype exn =
    Timeout
  | HTTPError nat
  | RequestException
  | KeyError
  | ValueError
  | TypeError
  | ImportError
  | OtherException

definition isinstance_RequestException :: "exn \<Rightarrow> bool" where
  "isinstance_RequestException e =
     (case e of Timeout \<Rightarrow> True | HTTPError _ \<Rightarrow> True | RequestException \<Rightarrow> True | _ \<Rightarrow> False)"

text \<open>
  \<^verbatim>\<open>float(x)\<close>: a number converts, a string goes through the parser (\<^verbatim>\<open>ValueError\<close>
  when it is not a numeral), \<^verbatim>\<open>None\<close> is a \<^verbatim>\<open>TypeError\<close>.
\<close>

definition py_float :: "(string \<Rightarrow> real option) \<Rightarrow> cell \<Rightarrow> exn + real" where
  "py_float float_of_string v =
     (case v of
        JNum r \<Rightarrow> Inr r
      | JStr s \<Rightarrow> (case float_of_string s of None \<Rightarrow> Inl ValueError | Some r \<Rightarrow> Inr r)
      | JNull \<Rightarrow> Inl TypeError)"

subsection \<open>Outbound HTTP\<close>

text \<open>
  A date of the calendar, and a value of a query parameter; \<open>PDate\<close> is a date
  formatted by \<^verbatim>\<open>strftime("%Y-%m-%d")\<close>.
\<close>

record date =
  year :: nat
  month :: nat
  day :: nat

datatype pval = PStr string | PInt int | PNum real | PDate date

record request =
  url :: string
  params :: "(string \<times> pval) list"
  headers :: "(string \<times> string) list"
  timeout :: nat

text \<open>
  What \<^verbatim>\<open>requests.get\<close> does: it raises, or it returns a response with a status code
  and a body that \<^verbatim>\<open>response.json()\<close> decodes or fails to decode.
\<close>

datatype 'a http_result = Get_raises exn | Response nat "exn + 'a"

definition raise_for_status :: "nat \<Rightarrow> exn + unit" where
  "raise_for_status status =
     (if 400 \<le> status \<and> status < 600 then Inl (HTTPError status) else Inr ())"

subsection \<open>The state of the process\<close>

text \<open>
  The text kept in \<^verbatim>\<open>_firebase_error\<close>: the missing-file message of
  \<open>get_firebase_app\<close>, \<^verbatim>\<open>str(e)\<close> of a caught exception, or the fallback text the
  page shows when the global is empty.
\<close>

datatype fb_error = Fichier_introuvable | Exception_text exn | Fichier_credentials_introuvable

text \<open>The messages the source writes to the page, one constructor per call site.\<close>

datatype message =
    Error_format_inattendu
  | Warning_parametres_indisponibles
  | Error_timeout
  | Error_requete_invalide
  | Error_http nat
  | Error_connexion exn
  | Error_inattendue exn
  | Warning_donnees_incompletes
  | Warning_aucune_donnee_valide
  | Error_traitement exn
  | Warning_firebase_non_configure
  | Error_detail fb_error
  | Success_etat_envoye bool
  | Error_ecriture_impossible
  | Info_etat_actuel bool

text \<open>A handle of a Firebase application object.\<close>

type_synonym app = nat

text \<open>
  Calls into \<^verbatim>\<open>firebase_admin\<close>, in the order they are made. \<open>Call_initialize_app\<close>
  records whether the call returned an application (\<open>True\<close>) or raised.
\<close>

datatype libcall =
    Call_get_app
  | Call_Certificate
  | Call_initialize_app bool
  | Call_db_get
  | Call_db_update bool

record world =
  firebase_app :: "app option"
  firebase_error :: "fb_error option"
  admin_apps :: "app option"
  vanne_etat :: "bool option"
  ui :: "message list"
  net :: "request list"
  lib :: "libcall list"

definition st_message :: "message \<Rightarrow> world \<Rightarrow> world" where
  "st_message m w = w\<lparr>ui := ui w @ [m]\<rparr>"

definition requests_get ::
  "(request \<Rightarrow> 'a http_result) \<Rightarrow> request \<Rightarrow> world \<Rightarrow> 'a http_result \<times> world" where
  "requests_get http rq w = (http rq, w\<lparr>net := net w @ [rq]\<rparr>)"

subsection \<open>Address suggestions\<close>

type_synonym candidate = "string \<rightharpoonup> cell"

record suggestion =
  display_name :: cell
  lat :: real
  lon :: real

text \<open>
  The loop \<^verbatim>\<open>for result in data: suggestions.append({...})\<close>. The dictionary display is
  evaluated left to right; \<^verbatim>\<open>result["lat"]\<close> raises \<^verbatim>\<open>KeyError\<close> on a missing key.
\<close>

fun append_suggestions ::
  "(string \<Rightarrow> real option) \<Rightarrow> candidate list \<Rightarrow> suggestion list \<Rightarrow> exn + suggestion list" where
  "append_suggestions fl [] suggestions = Inr suggestions"
| "append_suggestions fl (result # data) suggestions =
     (let name = (case result ''display_name'' of None \<Rightarrow> JStr [] | Some d \<Rightarrow> d) in
      case result ''lat'' of
        None \<Rightarrow> Inl KeyError
      | Some la \<Rightarrow>
          (case py_float fl la of
             Inl e \<Rightarrow> Inl e
           | Inr x \<Rightarrow>
               (case result ''lon'' of
                  None \<Rightarrow> Inl KeyError
                | Some lo \<Rightarrow>
                    (case py_float fl lo of
                       Inl e \<Rightarrow> Inl e
                     | Inr y \<Rightarrow>
                         append_suggestions fl data
                           (suggestions @ [\<lparr>display_name = name, lat = x, lon = y\<rparr>])))))"

definition nominatim_request :: "string \<Rightarrow> int \<Rightarrow> request" where
  "nominatim_request query limit =
     \<lparr>url = ''https://nominatim.openstreetmap.org/search'',
      params = [(''q'', PStr query), (''format'', PStr ''json''), (''limit'', PInt limit),
                (''addressdetails'', PInt 1)],
      headers = [(''User-Agent'', ''Agriculture-Monitoring-App'')],
      timeout = 10\<rparr>"

text \<open>The body of the \<^verbatim>\<open>try\<close> block, an exception being the left injection.\<close>

definition suggestions_try ::
  "(string \<Rightarrow> real option) \<Rightarrow> candidate list http_result \<Rightarrow> exn + suggestion list" where
  "suggestions_try fl reply =
     (case reply of
        Get_raises e \<Rightarrow> Inl e
      | Response status body \<Rightarrow>
          (case raise_for_status status of
             Inl e \<Rightarrow> Inl e
           | Inr _ \<Rightarrow>
               (case body of
                  Inl e \<Rightarrow> Inl e
                | Inr data \<Rightarrow>
                    (if data \<noteq> [] \<and> length data > 0 then append_suggestions fl data []
                     else Inr []))))"

text \<open>The four \<^verbatim>\<open>except\<close> clauses, tried in the order of the source.\<close>

definition suggestions_except :: "exn \<Rightarrow> suggestion list" where
  "suggestions_except e =
     (if e = Timeout then []
      else if isinstance_RequestException e then []
      else if e = KeyError \<or> e = ValueError then []
      else [])"

definition search_address_suggestions ::
  "(string \<Rightarrow> real option) \<Rightarrow> (request \<Rightarrow> candidate list http_result) \<Rightarrow>
   string \<Rightarrow> int \<Rightarrow> world \<Rightarrow> suggestion list \<times> world" where
  "search_address_suggestions fl http query limit w =
     (if query = [] \<or> length query < 2 then ([], w)
      else
        (case requests_get http (nominatim_request query limit) w of
           (reply, w') \<Rightarrow>
             (case suggestions_try fl reply of
                Inl e \<Rightarrow> (suggestions_except e, w')
              | Inr suggestions \<Rightarrow> (suggestions, w'))))"

subsection \<open>Weather retrieval\<close>

text \<open>
  The decoded body of the weather service: an object whose \<^verbatim>\<open>"hourly"\<close> member, when
  present, is an object of arrays of scalars keyed by variable name.
\<close>

type_synonym hourly = "string \<rightharpoonup> cell list"

type_synonym api_data = "string \<rightharpoonup> hourly"






subsection \<open>Normalisation of the hourly series\<close>

text \<open>A row of the data frame; \<open>None\<close> in \<open>datetime\<close> is \<^verbatim>\<open>NaT\<close>.\<close>

record 't sample =
  datetime :: "'t option"
  humidity_air :: cell
  humidity_soil :: cell

text \<open>
  \<^verbatim>\<open>pd.to_datetime(times)\<close>: \<^verbatim>\<open>None\<close> becomes \<^verbatim>\<open>NaT\<close>, any other entry goes through
  the parser of the library, which raises on an entry it cannot read. The parser is the
  parameter \<open>parse\<close> (\<open>None\<close> when it raises).
\<close>

fun to_datetime :: "(cell \<Rightarrow> 't option) \<Rightarrow> cell list \<Rightarrow> exn + 't option list" where
  "to_datetime parse [] = Inr []"
| "to_datetime parse (c # cs) =
     (case (if c = JNull then Inr None
            else (case parse c of None \<Rightarrow> Inl ValueError | Some t \<Rightarrow> Inr (Some t))) of
        Inl e \<Rightarrow> Inl e
      | Inr t \<Rightarrow>
          (case to_datetime parse cs of
             Inl e \<Rightarrow> Inl e
           | Inr ts \<Rightarrow> Inr (t # ts)))"

text \<open>
  \<^verbatim>\<open>pd.DataFrame({...})\<close> of three columns: the rows are the columns zipped by position;
  columns of different lengths raise \<^verbatim>\<open>ValueError\<close>.
\<close>

definition DataFrame :: "'t option list \<Rightarrow> cell list \<Rightarrow> cell list \<Rightarrow> exn + 't sample list" where
  "DataFrame ts air soil =
     (if length ts = length air \<and> length air = length soil then
        Inr (map (\<lambda>(t, a, s). \<lparr>datetime = t, humidity_air = a, humidity_soil = s\<rparr>)
               (zip ts (zip air soil)))
      else Inl ValueError)"

text \<open>
  \<^verbatim>\<open>df.dropna()\<close> keeps the rows with no missing value, in their order. A missing value
  is \<^verbatim>\<open>NaT\<close> or \<^verbatim>\<open>None\<close>; a \<open>JNum\<close> is a real number, so the float \<^verbatim>\<open>NaN\<close>, which
  the library also drops, is not a value of the model.
\<close>

definition dropna :: "'t sample list \<Rightarrow> 't sample list" where
  "dropna df =
     filter (\<lambda>r. datetime r \<noteq> None \<and> humidity_air r \<noteq> JNull \<and> humidity_soil r \<noteq> JNull) df"

definition process_try ::
  "(cell \<Rightarrow> 't option) \<Rightarrow> api_data \<Rightarrow> world \<Rightarrow> exn + ('t sample list option \<times> world)" where
  "process_try parse api_data w =
     (let hourly_data = (case api_data ''hourly'' of None \<Rightarrow> Map.empty | Some h \<Rightarrow> h);
          times = (case hourly_data ''time'' of None \<Rightarrow> [] | Some xs \<Rightarrow> xs);
          air = (case hourly_data ''relative_humidity_2m'' of None \<Rightarrow> [] | Some xs \<Rightarrow> xs);
          soil = (case hourly_data ''soil_moisture_0_to_1cm'' of None \<Rightarrow> [] | Some xs \<Rightarrow> xs)
      in
        if times = [] \<or> air = [] \<or> soil = [] then
          Inr (None, st_message Warning_donnees_incompletes w)
        else
          (case to_datetime parse times of
             Inl e \<Rightarrow> Inl e
           | Inr ts \<Rightarrow>
               (case DataFrame ts air soil of
                  Inl e \<Rightarrow> Inl e
                | Inr df0 \<Rightarrow>
                    (let df = dropna df0 in
                     if df = [] then Inr (None, st_message Warning_aucune_donnee_valide w)
                     else Inr (Some df, w)))))"

definition process_meteo_data ::
  "(cell \<Rightarrow> 't option) \<Rightarrow> api_data option \<Rightarrow> world \<Rightarrow> 't sample list option \<times> world" where
  "process_meteo_data parse api_data w =
     (case api_data of
        None \<Rightarrow> (None, w)
      | Some d \<Rightarrow>
          (case process_try parse d w of
             Inl e \<Rightarrow> (None, st_message (Error_traitement e) w)
           | Inr r \<Rightarrow> r))"

text \<open>
  A reader of the timestamps the weather service sends, \<^verbatim>\<open>YYYY-MM-DDTHH:MM\<close>, used to
  evaluate the functions above on concrete records. Its result orders the timestamps
  chronologically: the digits of year, month, day, hour and minute read as one number.
\<close>

definition digit :: "char \<Rightarrow> nat option" where
  "digit c = map_of (zip ''0123456789'' [0, 1, 2, 3, 4, 5, 6, 7, 8, 9]) c"

fun digits :: "nat \<Rightarrow> string \<Rightarrow> nat option" where
  "digits acc [] = Some acc"
| "digits acc (c # cs) =
     (case digit c of None \<Rightarrow> None | Some d \<Rightarrow> digits (10 * acc + d) cs)"

definition iso_minute :: "cell \<Rightarrow> nat option" where
  "iso_minute c =
     (case c of
        JStr s \<Rightarrow>
          (if length s = 16 \<and> s ! 4 = CHR ''-'' \<and> s ! 7 = CHR ''-'' \<and> s ! 10 = CHR ''T'' \<and>
              s ! 13 = CHR '':''
           then digits 0 (take 4 s @ take 2 (drop 5 s) @ take 2 (drop 8 s) @
                          take 2 (drop 11 s) @ drop 14 s)
           else None)
      | _ \<Rightarrow> None)"

subsection \<open>The Firebase client and the valve flag\<close>

text \<open>
  What the process finds outside itself when it talks to Firebase: whether the credential
  file exists, whether the imports, \<^verbatim>\<open>credentials.Certificate\<close>,
  \<^verbatim>\<open>firebase_admin.initialize_app\<close>, the read and the write raise, and what they return.
\<close>

record firebase =
  isfile :: bool
  import_firebase_admin :: "exn option"
  Certificate :: "exn option"
  initialize_app :: "exn + app"
  import_db :: "exn option"
  db_get :: "exn + bool option"
  db_update :: "exn option"

text \<open>
  Lines 27 and 28 of the module, executed each time the script is run:
  \<^verbatim>\<open>_firebase_app = None; _firebase_error = None\<close>. The registry of the library,
  \<^verbatim>\<open>firebase_admin._apps\<close>, is not touched by them.
\<close>

definition module_init :: "world \<Rightarrow> world" where
  "module_init w = w\<lparr>firebase_app := None, firebase_error := None\<rparr>"

text \<open>
  The \<^verbatim>\<open>try\<close> block of \<open>get_firebase_app\<close>. It changes the world before it can raise,
  so the exception carries the world it leaves.
\<close>

definition get_firebase_app_try :: "firebase \<Rightarrow> world \<Rightarrow> (exn \<times> world) + (app option \<times> world)" where
  "get_firebase_app_try env w =
     (case import_firebase_admin env of
        Some e \<Rightarrow> Inl (e, w)
      | None \<Rightarrow>
          (case admin_apps w of
             Some a \<Rightarrow> Inr (Some a, w\<lparr>firebase_app := Some a, lib := lib w @ [Call_get_app]\<rparr>)
           | None \<Rightarrow>
               (let w1 = w\<lparr>lib := lib w @ [Call_Certificate]\<rparr> in
                case Certificate env of
                  Some e \<Rightarrow> Inl (e, w1)
                | None \<Rightarrow>
                    (case initialize_app env of
                       Inl e \<Rightarrow> Inl (e, w1\<lparr>lib := lib w1 @ [Call_initialize_app False]\<rparr>)
                     | Inr a \<Rightarrow>
                         Inr (Some a,
                              w1\<lparr>lib := lib w1 @ [Call_initialize_app True],
                                 admin_apps := Some a, firebase_app := Some a\<rparr>)))))"

definition get_firebase_app :: "firebase \<Rightarrow> world \<Rightarrow> app option \<times> world" where
  "get_firebase_app env w =
     (if firebase_app w \<noteq> None then (firebase_app w, w)
      else
        (let w1 = w\<lparr>firebase_error := None\<rparr> in
         if \<not> isfile env then (None, w1\<lparr>firebase_error := Some Fichier_introuvable\<rparr>)
         else
           (case get_firebase_app_try env w1 of
              Inl (e, w2) \<Rightarrow> (None, w2\<lparr>firebase_error := Some (Exception_text e)\<rparr>)
            | Inr r \<Rightarrow> r)))"



definition firebase_set_vanne_etat_try ::
  "bool \<Rightarrow> firebase \<Rightarrow> world \<Rightarrow> (exn \<times> world) + (bool \<times> world)" where
  "firebase_set_vanne_etat_try etat env w =
     (case get_firebase_app env w of
        (app, w1) \<Rightarrow>
          (if app = None then Inr (False, w1)
           else
             (case import_db env of
                Some e \<Rightarrow> Inl (e, w1)
              | None \<Rightarrow>
                  (let w2 = w1\<lparr>lib := lib w1 @ [Call_db_update etat]\<rparr> in
                   case db_update env of
                     Some e \<Rightarrow> Inl (e, w2)
                   | None \<Rightarrow> Inr (True, w2)))))"

definition firebase_set_vanne_etat :: "bool \<Rightarrow> firebase \<Rightarrow> world \<Rightarrow> bool \<times> world" where
  "firebase_set_vanne_etat etat env w =
     (case firebase_set_vanne_etat_try etat env w of
        Inl (e, w') \<Rightarrow> (False, w')
      | Inr r \<Rightarrow> r)"



text \<open>
  A history of the process: the script is run again (\<open>Rerun\<close>), or
  \<open>get_firebase_app\<close> is called in some environment. \<open>initializations\<close> counts the
  calls of \<^verbatim>\<open>firebase_admin.initialize_app\<close> that returned an application.
\<close>

datatype step = Rerun | Get_app firebase

fun run :: "step list \<Rightarrow> world \<Rightarrow> world" where
  "run [] w = w"
| "run (Rerun # steps) w = run steps (module_init w)"
| "run (Get_app env # steps) w = run steps (snd (get_firebase_app env w))"

definition initializations :: "world \<Rightarrow> nat" where
  "initializations w = length (filter (\<lambda>c. c = Call_initialize_app True) (lib w))"

text \<open>The state of a freshly started process: nothing cached, nothing emitted.\<close>

definition initial_world :: world where
  "initial_world =
     \<lparr>firebase_app = None, firebase_error = None, admin_apps = None, vanne_etat = None,
      ui = [], net = [], lib = []\<rparr>"

subsection \<open>Vocabulary of the properties\<close>

text \<open>
  A candidate is malformed when \<^verbatim>\<open>"lat"\<close> or \<^verbatim>\<open>"lon"\<close> is missing or holds a value that
  \<^verbatim>\<open>float\<close> does not convert.
\<close>

definition has_float :: "(string \<Rightarrow> real option) \<Rightarrow> candidate \<Rightarrow> string \<Rightarrow> bool" where
  "has_float fl c k = (case c k of None \<Rightarrow> False | Some v \<Rightarrow> \<not> isl (py_float fl v))"

definition malformed :: "(string \<Rightarrow> real option) \<Rightarrow> candidate \<Rightarrow> bool" where
  "malformed fl c = (\<not> has_float fl c ''lat'' \<or> \<not> has_float fl c ''lon'')"

text \<open>
  A geocoding answer of two candidates, the second without \<^verbatim>\<open>"lon"\<close>, and a reader of
  the three numerals it holds.
\<close>

definition two_candidates :: "candidate list" where
  "two_candidates =
     [[''display_name'' \<mapsto> JStr ''Orleans'', ''lat'' \<mapsto> JStr ''47.9'', ''lon'' \<mapsto> JStr ''1.9''],
      [''display_name'' \<mapsto> JStr ''Paris'', ''lat'' \<mapsto> JStr ''48.8'']]"

definition float_table :: "string \<Rightarrow> real option" where
  "float_table s =
     (if s = ''47.9'' then Some 47.9 else if s = ''1.9'' then Some 1.9
      else if s = ''48.8'' then Some 48.8 else None)"

text \<open>The timestamps of a series, in the order of its rows (\<^verbatim>\<open>NaT\<close> left out).\<close>

definition timestamps :: "'t sample list \<Rightarrow> 't list" where
  "timestamps df = List.map_filter datetime df"

text \<open>
  Weather records to evaluate the functions on: two hourly samples with the later one
  first, the same in chronological order, one whose air humidity array is shorter than
  the others, and one holding only \<^verbatim>\<open>null\<close>.
\<close>

definition unordered_record :: api_data where
  "unordered_record =
     [''hourly'' \<mapsto>
        [''time'' \<mapsto> [JStr ''2024-06-01T01:00'', JStr ''2024-06-01T00:00''],
         ''relative_humidity_2m'' \<mapsto> [JNum 50, JNum 60],
         ''soil_moisture_0_to_1cm'' \<mapsto> [JNum 0.2, JNum 0.3]]]"

definition ordered_record :: api_data where
  "ordered_record =
     [''hourly'' \<mapsto>
        [''time'' \<mapsto> [JStr ''2024-06-01T00:00'', JStr ''2024-06-01T01:00''],
         ''relative_humidity_2m'' \<mapsto> [JNum 50, JNum 60],
         ''soil_moisture_0_to_1cm'' \<mapsto> [JNum 0.2, JNum 0.3]]]"

definition mismatched_record :: api_data where
  "mismatched_record =
     [''hourly'' \<mapsto>
        [''time'' \<mapsto> [JStr ''2024-06-01T00:00'', JStr ''2024-06-01T01:00''],
         ''relative_humidity_2m'' \<mapsto> [JNum 50],
         ''soil_moisture_0_to_1cm'' \<mapsto> [JNum 0.2, JNum 0.3]]]"

definition all_null_record :: api_data where
  "all_null_record =
     [''hourly'' \<mapsto>
        [''time'' \<mapsto> [JNull, JNull],
         ''relative_humidity_2m'' \<mapsto> [JNull, JNull],
         ''soil_moisture_0_to_1cm'' \<mapsto> [JNull, JNull]]]"



definition partial_body :: api_data where
  "partial_body =
     [''hourly'' \<mapsto>
        [''time'' \<mapsto> [JStr ''2024-06-01T00:00'', JStr ''2024-06-01T01:00''],
         ''relative_humidity_2m'' \<mapsto> [JNum 50, JNum 60],
         ''soil_moisture_0_to_1cm'' \<mapsto> []]]"


text \<open>
  Environments to evaluate the Firebase functions in: everything works; the credential
  file is missing; the file is there but \<^verbatim>\<open>credentials.Certificate\<close> rejects it; the
  library cannot be imported; the remote read raises; the remote write raises.
\<close>

definition ok_env :: firebase where
  "ok_env =
     \<lparr>isfile = True, import_firebase_admin = None, Certificate = None, initialize_app = Inr 1,
      import_db = None, db_get = Inr (Some True), db_update = None\<rparr>"

definition no_file_env :: firebase where
  "no_file_env = ok_env\<lparr>isfile := False\<rparr>"

definition bad_credentials_env :: firebase where
  "bad_credentials_env = ok_env\<lparr>Certificate := Some ValueError\<rparr>"

definition no_library_env :: firebase where
  "no_library_env = ok_env\<lparr>import_firebase_admin := Some ImportError\<rparr>"


definition write_fails_env :: firebase where
  "write_fails_env = ok_env\<lparr>db_update := Some OtherException\<rparr>"

text \<open>
  The state of the process after a first successful call of \<open>get_firebase_app\<close>, and
  after a first call that failed on the credentials.
\<close>

definition client_ready :: world where
  "client_ready =
     initial_world\<lparr>firebase_app := Some 1, admin_apps := Some 1,
                   lib := [Call_Certificate, Call_initialize_app True]\<rparr>"

definition failed_once :: world where
  "failed_once =
     initial_world\<lparr>firebase_error := Some (Exception_text ValueError), lib := [Call_Certificate]\<rparr>"

text \<open>
  The invariant of the histories: at most one successful initialisation, and none while
  the registry of the library is empty.
\<close>

definition once :: "world \<Rightarrow> bool" where
  "once w = (initializations w \<le> 1 \<and> (admin_apps w = None \<longrightarrow> initializations w = 0))"

text \<open>
  Two more invariants of the histories. \<open>coherent\<close>: the module global, when it holds a
  client, holds the one in the registry of the library. \<open>registered a\<close>: the registry holds
  the client \<open>a\<close>, and the module global is empty or holds \<open>a\<close>.
\<close>

definition coherent :: "world \<Rightarrow> bool" where
  "coherent w = (firebase_app w = None \<or> firebase_app w = admin_apps w)"

definition registered :: "app \<Rightarrow> world \<Rightarrow> bool" where
  "registered a w = (admin_apps w = Some a \<and> (firebase_app w = None \<or> firebase_app w = Some a))"

section \<open>Properties\<close>

subsection \<open>Address suggestions\<close>

text \<open>
  Claim C3. For every query string of length strictly less than 2 (the empty string
  included), for every limit and whatever the geocoding service would answer,
  \<open>search_address_suggestions\<close> returns the empty sequence and leaves the state of the
  process as it was: in particular the list of outbound requests is unchanged, so no
  network call was issued.
\<close>

theorem suggest_short_query_no_call:
  "length query < 2 \<Longrightarrow> search_address_suggestions fl http query limit w = ([], w)"
  by (simp add: search_address_suggestions_def)

theorem suggest_short_query_no_call_witness:
  "length ''a'' < 2 \<and>
   search_address_suggestions (\<lambda>s. None) (\<lambda>rq. Response 200 (Inr [])) ''a'' 10 initial_world
     = ([], initial_world) \<and>
   net (snd (search_address_suggestions (\<lambda>s. None) (\<lambda>rq. Response 200 (Inr [])) ''a'' 10
     initial_world)) = []"
  using suggest_short_query_no_call
    [of "''a''" "\<lambda>s. None" "\<lambda>rq. Response 200 (Inr [])" 10 initial_world]
  by (simp add: initial_world_def)

lemma append_suggestions_malformed:
  "\<exists>c\<in>set data. malformed fl c \<Longrightarrow> isl (append_suggestions fl data acc)"
proof (induction data arbitrary: acc)
  case Nil
  then show ?case by simp
next
  case (Cons c cs)
  show ?case
  proof (cases "malformed fl c")
    case True
    then show ?thesis
      by (auto simp: malformed_def has_float_def Let_def split: option.splits sum.splits)
  next
    case False
    with Cons.prems have "\<exists>c\<in>set cs. malformed fl c" by simp
    then have "\<And>acc'. isl (append_suggestions fl cs acc')" by (rule Cons.IH)
    then show ?thesis
      by (simp add: Let_def split: option.splits sum.splits)
  qed
qed

text \<open>
  Claim C9. When the geocoding service answers successfully (no exception, a status below
  400, a body that decodes to a list of candidates) and one candidate of the list is
  malformed (\<^verbatim>\<open>"lat"\<close> or \<^verbatim>\<open>"lon"\<close> missing or not convertible to a float),
  \<open>search_address_suggestions\<close> returns the empty sequence, wherever the malformed
  candidate stands: the suggestions built from the candidates before it are dropped, the
  exception being handled once for the whole call. The request has been issued.
\<close>

theorem suggest_malformed_candidate:
  assumes "2 \<le> length query"
    and "http (nominatim_request query limit) = Response status (Inr data)"
    and "status < 400"
    and "\<exists>c\<in>set data. malformed fl c"
  shows "search_address_suggestions fl http query limit w
           = ([], w\<lparr>net := net w @ [nominatim_request query limit]\<rparr>)"
proof -
  from assms(4) obtain e where e: "append_suggestions fl data [] = Inl e"
    using append_suggestions_malformed [of data fl "[]"]
    by (cases "append_suggestions fl data []") auto
  from assms(4) have ne: "data \<noteq> []" by auto
  have "suggestions_try fl (Response status (Inr data)) = Inl e"
    using assms(3) ne e by (simp add: suggestions_try_def raise_for_status_def)
  moreover have "suggestions_except e = []" by (simp add: suggestions_except_def)
  moreover have "query \<noteq> []" "\<not> length query < 2" using assms(1) by auto
  ultimately show ?thesis
    using assms(2) by (simp add: search_address_suggestions_def requests_get_def)
qed

text \<open>
  The first candidate of \<open>two_candidates\<close> alone yields one suggestion; followed by the
  second, which has no \<^verbatim>\<open>"lon"\<close>, the call yields none.
\<close>

theorem suggest_malformed_candidate_witness:
  "search_address_suggestions float_table (\<lambda>rq. Response 200 (Inr two_candidates)) ''Or'' 10
     initial_world
     = ([], initial_world\<lparr>net := [nominatim_request ''Or'' 10]\<rparr>) \<and>
   append_suggestions float_table (take 1 two_candidates) []
     = Inr [\<lparr>display_name = JStr ''Orleans'', lat = 47.9, lon = 1.9\<rparr>]"
proof -
  have m: "\<exists>c\<in>set two_candidates. malformed float_table c"
    by (simp add: two_candidates_def malformed_def has_float_def)
  have "search_address_suggestions float_table (\<lambda>rq. Response 200 (Inr two_candidates)) ''Or'' 10
          initial_world
     = ([], initial_world\<lparr>net := net initial_world @ [nominatim_request ''Or'' 10]\<rparr>)"
    by (rule suggest_malformed_candidate [where status = 200 and data = two_candidates])
       (simp_all add: m)
  moreover have "append_suggestions float_table (take 1 two_candidates) []
     = Inr [\<lparr>display_name = JStr ''Orleans'', lat = 47.9, lon = 1.9\<rparr>]"
    by (simp add: two_candidates_def float_table_def py_float_def)
  ultimately show ?thesis by (simp add: initial_world_def)
qed

subsection \<open>Normalisation\<close>

lemma to_datetime_Inr:
  "\<forall>c\<in>set stamps. c \<noteq> JNull \<longrightarrow> parse c \<noteq> None \<Longrightarrow>
   to_datetime parse stamps = Inr (map (\<lambda>c. if c = JNull then None else parse c) stamps)"
  by (induction stamps) auto

lemma to_datetime_Inl: "to_datetime parse stamps = Inl e \<Longrightarrow> e = ValueError"
  by (induction stamps arbitrary: e) (auto split: if_splits option.splits sum.splits)

lemma to_datetime_length: "to_datetime parse stamps = Inr ts \<Longrightarrow> length ts = length stamps"
  by (induction stamps arbitrary: ts) (auto split: if_splits option.splits sum.splits)

lemma map_filter_via_map:
  "List.map_filter h zs = map the (filter (\<lambda>y. y \<noteq> None) (map h zs))"
  by (induction zs) (auto simp: map_filter_def)

lemma map_filter_cong_map: "map f xs = map g ys \<Longrightarrow> List.map_filter f xs = List.map_filter g ys"
  by (simp only: map_filter_via_map)

lemma process_unfold:
  assumes "api ''hourly'' = Some h" "h ''time'' = Some stamps"
    "h ''relative_humidity_2m'' = Some air" "h ''soil_moisture_0_to_1cm'' = Some soil"
    "stamps \<noteq> []" "air \<noteq> []" "soil \<noteq> []"
  shows "process_meteo_data parse (Some api) w =
          (case to_datetime parse stamps of
             Inl e \<Rightarrow> (None, st_message (Error_traitement e) w)
           | Inr ts \<Rightarrow>
               (case DataFrame ts air soil of
                  Inl e \<Rightarrow> (None, st_message (Error_traitement e) w)
                | Inr df0 \<Rightarrow>
                    if dropna df0 = [] then (None, st_message Warning_aucune_donnee_valide w)
                    else (Some (dropna df0), w)))"
  using assms by (simp add: process_meteo_data_def process_try_def Let_def split: sum.splits)

lemma DataFrame_columns:
  assumes "length ts = length air" "length air = length soil"
  shows "\<exists>df. DataFrame ts air soil = Inr df \<and> length df = length ts \<and>
           map datetime df = ts \<and> map humidity_air df = air \<and> map humidity_soil df = soil"
proof -
  let ?df = "map (\<lambda>(t, a, s). \<lparr>datetime = t, humidity_air = a, humidity_soil = s\<rparr>) (zip ts (zip air soil))"
  have "map datetime ?df = map fst (zip ts (zip air soil))"
    by (simp add: case_prod_beta comp_def)
  then have 1: "map datetime ?df = ts" using assms by simp
  have "map humidity_air ?df = map fst (map snd (zip ts (zip air soil)))"
    by (simp add: case_prod_beta comp_def)
  then have 2: "map humidity_air ?df = air" using assms by simp
  have "map humidity_soil ?df = map snd (map snd (zip ts (zip air soil)))"
    by (simp add: case_prod_beta comp_def)
  then have 3: "map humidity_soil ?df = soil" using assms by simp
  have "DataFrame ts air soil = Inr ?df" using assms by (simp add: DataFrame_def)
  moreover have "length ?df = length ts" using assms by simp
  ultimately show ?thesis using 1 2 3 by blast
qed

lemma dropna_all:
  assumes "None \<notin> set (map datetime df)" "JNull \<notin> set (map humidity_air df)"
    "JNull \<notin> set (map humidity_soil df)"
  shows "dropna df = df"
  using assms by (induction df) (auto simp: dropna_def)

text \<open>
  Claim C1, as amended. For every weather record whose three arrays are present,
  non-empty, of equal length, without \<^verbatim>\<open>null\<close> entry, and whose timestamps the library
  parses, \<open>process_meteo_data\<close> returns a series and emits no message. The series has
  as many rows as the arrays have entries; row \<open>i\<close> holds the parsed timestamp \<open>i\<close>, the
  air humidity \<open>i\<close> and the soil moisture \<open>i\<close>, so the rows stand in the order of the
  input; no field of any row is missing. The function does not sort: the series is
  ascending by timestamp exactly when the timestamps of the input are.
\<close>

theorem normalize_keeps_rows_in_order:
  assumes "api ''hourly'' = Some h" and "h ''time'' = Some stamps"
    and "h ''relative_humidity_2m'' = Some air" and "h ''soil_moisture_0_to_1cm'' = Some soil"
    and "stamps \<noteq> []" and "length air = length stamps" and "length soil = length stamps"
    and "JNull \<notin> set stamps" and "JNull \<notin> set air" and "JNull \<notin> set soil"
    and "\<forall>c\<in>set stamps. parse c \<noteq> None"
  shows "\<exists>df. process_meteo_data parse (Some api) w = (Some df, w) \<and>
           length df = length stamps \<and>
           map datetime df = map parse stamps \<and>
           map humidity_air df = air \<and> map humidity_soil df = soil \<and>
           (\<forall>r\<in>set df. datetime r \<noteq> None \<and> humidity_air r \<noteq> JNull \<and> humidity_soil r \<noteq> JNull) \<and>
           timestamps df = List.map_filter parse stamps \<and>
           (sorted (timestamps df) \<longleftrightarrow> sorted (List.map_filter parse stamps))"
proof -
  let ?ts = "map parse stamps"
  have ne: "air \<noteq> []" "soil \<noteq> []" using assms(5,6,7) by auto
  have "to_datetime parse stamps = Inr (map (\<lambda>c. if c = JNull then None else parse c) stamps)"
    using assms(11) by (intro to_datetime_Inr) simp
  moreover have "map (\<lambda>c. if c = JNull then None else parse c) stamps = ?ts"
    using assms(8) by (intro map_cong) auto
  ultimately have td: "to_datetime parse stamps = Inr ?ts" by simp
  obtain df where df: "DataFrame ?ts air soil = Inr df" "length df = length ?ts"
    "map datetime df = ?ts" "map humidity_air df = air" "map humidity_soil df = soil"
    using DataFrame_columns [of ?ts air soil] assms(6,7) by auto
  have nonone: "None \<notin> set ?ts" using assms(11) by (auto simp: image_iff)
  have keep: "dropna df = df"
    using nonone assms(9,10) df(3,4,5) by (intro dropna_all) simp_all
  have dfne: "df \<noteq> []" using df(2) assms(5) by auto
  have res: "process_meteo_data parse (Some api) w = (Some df, w)"
    using process_unfold [where parse = parse and w = w and api = api and h = h
        and stamps = stamps and air = air and soil = soil] assms(1-5) ne td df(1) keep dfne
    by simp
  have rows: "\<forall>r\<in>set df. datetime r \<noteq> None \<and> humidity_air r \<noteq> JNull \<and> humidity_soil r \<noteq> JNull"
  proof
    fix r assume r: "r \<in> set df"
    then have "datetime r \<in> set (map datetime df)" "humidity_air r \<in> set (map humidity_air df)"
      "humidity_soil r \<in> set (map humidity_soil df)" by auto
    then show "datetime r \<noteq> None \<and> humidity_air r \<noteq> JNull \<and> humidity_soil r \<noteq> JNull"
      using nonone assms(9,10) df(3,4,5) by metis
  qed
  have tst: "timestamps df = List.map_filter parse stamps"
    unfolding timestamps_def using df(3) by (rule map_filter_cong_map)
  show ?thesis using res df(2,3,4,5) rows tst by auto
qed

lemma iso_0000: "iso_minute (JStr ''2024-06-01T00:00'') = Some 202406010000"
  by (simp add: iso_minute_def digit_def)

lemma iso_0100: "iso_minute (JStr ''2024-06-01T01:00'') = Some 202406010100"
  by (simp add: iso_minute_def digit_def)

text \<open>
  The claim as stated (the series is always ascending by timestamp) fails on a record
  that lists 01:00 before 00:00: the arrays are non-empty, of equal length and without
  \<^verbatim>\<open>null\<close>, and the series keeps the two rows in that order.
\<close>

theorem normalize_unordered_counterexample:
  "process_meteo_data iso_minute (Some unordered_record) initial_world
     = (Some [\<lparr>datetime = Some 202406010100, humidity_air = JNum 50, humidity_soil = JNum 0.2\<rparr>,
              \<lparr>datetime = Some 202406010000, humidity_air = JNum 60, humidity_soil = JNum 0.3\<rparr>],
        initial_world) \<and>
   \<not> sorted [202406010100, 202406010000 :: nat]"
  by (simp add: process_meteo_data_def process_try_def unordered_record_def DataFrame_def
      dropna_def iso_0000 iso_0100)

theorem normalize_keeps_rows_in_order_witness:
  "\<exists>df. process_meteo_data iso_minute (Some ordered_record) initial_world = (Some df, initial_world) \<and>
     length df = 2 \<and>
     map datetime df = [Some 202406010000, Some 202406010100] \<and>
     map humidity_air df = [JNum 50, JNum 60] \<and>
     map humidity_soil df = [JNum 0.2, JNum 0.3] \<and>
     timestamps df = [202406010000, 202406010100] \<and>
     sorted (timestamps df)"
proof -
  let ?h = "[''time'' \<mapsto> [JStr ''2024-06-01T00:00'', JStr ''2024-06-01T01:00''],
         ''relative_humidity_2m'' \<mapsto> [JNum 50, JNum 60],
         ''soil_moisture_0_to_1cm'' \<mapsto> [JNum 0.2, JNum 0.3]]"
  have "\<exists>df. process_meteo_data iso_minute (Some ordered_record) initial_world = (Some df, initial_world) \<and>
           length df = length [JStr ''2024-06-01T00:00'', JStr ''2024-06-01T01:00''] \<and>
           map datetime df = map iso_minute [JStr ''2024-06-01T00:00'', JStr ''2024-06-01T01:00''] \<and>
           map humidity_air df = [JNum 50, JNum 60] \<and> map humidity_soil df = [JNum 0.2, JNum 0.3] \<and>
           (\<forall>r\<in>set df. datetime r \<noteq> None \<and> humidity_air r \<noteq> JNull \<and> humidity_soil r \<noteq> JNull) \<and>
           timestamps df = List.map_filter iso_minute [JStr ''2024-06-01T00:00'', JStr ''2024-06-01T01:00''] \<and>
           (sorted (timestamps df) \<longleftrightarrow>
              sorted (List.map_filter iso_minute [JStr ''2024-06-01T00:00'', JStr ''2024-06-01T01:00'']))"
    by (rule normalize_keeps_rows_in_order [where h = ?h])
       (simp_all add: ordered_record_def iso_0000 iso_0100)
  then show ?thesis
    by (auto simp add: iso_0000 iso_0100 map_filter_def)
qed

lemma process_lookup:
  assumes "api ''hourly'' = Some h" "h ''time'' = Some stamps"
    "h ''relative_humidity_2m'' = Some air" "h ''soil_moisture_0_to_1cm'' = Some soil"
  shows "process_try parse api w =
          (if stamps = [] \<or> air = [] \<or> soil = [] then
             Inr (None, st_message Warning_donnees_incompletes w)
           else
             (case to_datetime parse stamps of
                Inl e \<Rightarrow> Inl e
              | Inr ts \<Rightarrow>
                 (case DataFrame ts air soil of
                    Inl e \<Rightarrow> Inl e
                  | Inr df0 \<Rightarrow>
                      if dropna df0 = [] then Inr (None, st_message Warning_aucune_donnee_valide w)
                      else Inr (Some (dropna df0), w))))"
  using assms by (simp add: process_try_def Let_def split: sum.splits)

lemma dropna_none:
  assumes "length ts = length air" "length air = length soil"
    and "\<forall>i<length ts. ts ! i = None \<or> air ! i = JNull \<or> soil ! i = JNull"
    and "DataFrame ts air soil = Inr df"
  shows "dropna df = []"
proof -
  let ?row = "\<lambda>(t, a, s). \<lparr>datetime = t, humidity_air = a, humidity_soil = s\<rparr>"
  have df: "df = map ?row (zip ts (zip air soil))"
    using assms(1,2,4) by (simp add: DataFrame_def)
  have "\<not> (datetime r \<noteq> None \<and> humidity_air r \<noteq> JNull \<and> humidity_soil r \<noteq> JNull)"
    if r: "r \<in> set df" for r
  proof -
    from r obtain i where i: "i < length df" "r = df ! i" by (auto simp: in_set_conv_nth)
    have len: "length df = length ts" using assms(1,2) by (simp add: df)
    have "r = \<lparr>datetime = ts ! i, humidity_air = air ! i, humidity_soil = soil ! i\<rparr>"
      using i len assms(1,2) by (simp add: df)
    moreover have "ts ! i = None \<or> air ! i = JNull \<or> soil ! i = JNull"
      using assms(3) i len by simp
    ultimately show ?thesis by auto
  qed
  then show ?thesis
    unfolding dropna_def by (simp add: filter_empty_conv)
qed

text \<open>
  Claim C2, as amended. \<open>process_meteo_data\<close> raises nothing: an exception of its \<^verbatim>\<open>try\<close>
  block becomes the absent result with the message \<open>Error_traitement\<close>. For a record
  whose three arrays are present: when all are non-empty and their lengths differ, the
  result is absent and the message is that processing error (the \<^verbatim>\<open>ValueError\<close> of the
  data frame), not the "no valid data" warning; when one array is empty, the result is
  absent with the "incomplete data" warning; when the arrays are non-empty and of equal
  length, the non-null timestamps parse, and every row has a \<^verbatim>\<open>null\<close> field (all
  values \<^verbatim>\<open>null\<close> in particular), the result is absent with the "no valid data" warning.
\<close>

theorem normalize_failure_diagnostics:
  assumes "api ''hourly'' = Some h" and "h ''time'' = Some stamps"
    and "h ''relative_humidity_2m'' = Some air" and "h ''soil_moisture_0_to_1cm'' = Some soil"
  shows
    "(stamps \<noteq> [] \<and> air \<noteq> [] \<and> soil \<noteq> [] \<and>
        \<not> (length stamps = length air \<and> length air = length soil) \<longrightarrow>
        process_meteo_data parse (Some api) w = (None, st_message (Error_traitement ValueError) w)) \<and>
     (stamps = [] \<or> air = [] \<or> soil = [] \<longrightarrow>
        process_meteo_data parse (Some api) w = (None, st_message Warning_donnees_incompletes w)) \<and>
     (stamps \<noteq> [] \<and> length air = length stamps \<and> length soil = length stamps \<and>
        (\<forall>c\<in>set stamps. c \<noteq> JNull \<longrightarrow> parse c \<noteq> None) \<and>
        (\<forall>i<length stamps. stamps ! i = JNull \<or> air ! i = JNull \<or> soil ! i = JNull) \<longrightarrow>
        process_meteo_data parse (Some api) w = (None, st_message Warning_aucune_donnee_valide w)) \<and>
     (process_try parse api w = Inl e \<longrightarrow>
        process_meteo_data parse (Some api) w = (None, st_message (Error_traitement e) w))"
proof -
  note pl = process_lookup [where parse = parse and w = w and api = api and h = h
        and stamps = stamps and air = air and soil = soil]
  have pt: "process_try parse api w =
          (if stamps = [] \<or> air = [] \<or> soil = [] then
             Inr (None, st_message Warning_donnees_incompletes w)
           else
             (case to_datetime parse stamps of
                Inl e \<Rightarrow> Inl e
              | Inr ts \<Rightarrow>
                 (case DataFrame ts air soil of
                    Inl e \<Rightarrow> Inl e
                  | Inr df0 \<Rightarrow>
                      if dropna df0 = [] then Inr (None, st_message Warning_aucune_donnee_valide w)
                      else Inr (Some (dropna df0), w))))"
    using pl assms by simp
  have A: "process_meteo_data parse (Some api) w = (None, st_message (Error_traitement ValueError) w)"
    if "stamps \<noteq> []" "air \<noteq> []" "soil \<noteq> []" "\<not> (length stamps = length air \<and> length air = length soil)"
  proof (cases "to_datetime parse stamps")
    case (Inl e)
    then have "e = ValueError" by (rule to_datetime_Inl)
    with Inl that pt show ?thesis by (simp add: process_meteo_data_def)
  next
    case (Inr ts)
    then have "length ts = length stamps" by (rule to_datetime_length)
    with that(4) have "DataFrame ts air soil = Inl ValueError" by (simp add: DataFrame_def)
    with Inr that pt show ?thesis by (simp add: process_meteo_data_def)
  qed
  have B: "process_meteo_data parse (Some api) w = (None, st_message Warning_donnees_incompletes w)"
    if "stamps = [] \<or> air = [] \<or> soil = []"
    using that pt by (simp add: process_meteo_data_def)
  have C: "process_meteo_data parse (Some api) w = (None, st_message Warning_aucune_donnee_valide w)"
    if c: "stamps \<noteq> []" "length air = length stamps" "length soil = length stamps"
      "\<forall>c\<in>set stamps. c \<noteq> JNull \<longrightarrow> parse c \<noteq> None"
      "\<forall>i<length stamps. stamps ! i = JNull \<or> air ! i = JNull \<or> soil ! i = JNull"
  proof -
    let ?ts = "map (\<lambda>c. if c = JNull then None else parse c) stamps"
    have td: "to_datetime parse stamps = Inr ?ts" using c(4) by (rule to_datetime_Inr)
    obtain df where df: "DataFrame ?ts air soil = Inr df"
      using DataFrame_columns [of ?ts air soil] c(2,3) by auto
    have "\<forall>i<length ?ts. ?ts ! i = None \<or> air ! i = JNull \<or> soil ! i = JNull"
      using c(5) by auto
    then have "dropna df = []"
      using c(2,3) df by (intro dropna_none [of ?ts air soil]) simp_all
    moreover have "air \<noteq> []" "soil \<noteq> []" using c(1,2,3) by auto
    ultimately show ?thesis using td df c(1) pt by (simp add: process_meteo_data_def)
  qed
  have D: "process_try parse api w = Inl e \<longrightarrow>
        process_meteo_data parse (Some api) w = (None, st_message (Error_traitement e) w)"
    by (simp add: process_meteo_data_def)
  from A B C D show ?thesis by blast
qed

text \<open>
  The claim as stated fails on arrays of lengths 2, 1 and 2: the result is absent, but
  the message is the processing error, not the "no valid data" warning.
\<close>

theorem normalize_mismatch_counterexample:
  "process_meteo_data iso_minute (Some mismatched_record) initial_world
     = (None, initial_world\<lparr>ui := [Error_traitement ValueError]\<rparr>) \<and>
   Error_traitement ValueError \<noteq> Warning_aucune_donnee_valide"
  by (simp add: process_meteo_data_def process_try_def mismatched_record_def DataFrame_def
      dropna_def iso_0000 iso_0100 st_message_def initial_world_def)

text \<open>
  Claim C8. \<open>process_meteo_data\<close> is a function of the record alone: for every parser and
  record there are one result and one list of messages such that, in every state of the
  process, the call returns that result and changes the state only by appending those
  messages to the page. It reads neither the cached client, nor the session value, nor
  what was emitted before. So a second call on the same record, made in the state the
  first call left, returns the same result.
\<close>

theorem normalize_is_function_of_record:
  "(\<exists>r ms. \<forall>w. process_meteo_data parse x w = (r, w\<lparr>ui := ui w @ ms\<rparr>)) \<and>
   fst (process_meteo_data parse x (snd (process_meteo_data parse x w)))
     = fst (process_meteo_data parse x w)"
proof -
  have 1: "\<exists>r ms. \<forall>w. process_meteo_data parse x w = (r, w\<lparr>ui := ui w @ ms\<rparr>)"
  proof (cases x)
    case None
    have "\<forall>w. process_meteo_data parse None w = (None, w\<lparr>ui := ui w @ []\<rparr>)"
      by (simp add: process_meteo_data_def)
    with None show ?thesis by blast
  next
    case (Some d)
    let ?p = "process_meteo_data parse (Some d) initial_world"
    have "\<forall>w. process_meteo_data parse (Some d) w = (fst ?p, w\<lparr>ui := ui w @ ui (snd ?p)\<rparr>)"
      by (simp add: process_meteo_data_def process_try_def Let_def st_message_def
          initial_world_def split: sum.splits)
    then show ?thesis unfolding Some by blast
  qed
  then obtain r ms where rm: "\<And>w. process_meteo_data parse x w = (r, w\<lparr>ui := ui w @ ms\<rparr>)"
    by blast
  have "fst (process_meteo_data parse x (snd (process_meteo_data parse x w))) = r"
    by (simp add: rm)
  moreover have "fst (process_meteo_data parse x w) = r" by (simp add: rm)
  ultimately show ?thesis using 1 by simp
qed

theorem normalize_failure_diagnostics_witness:
  "process_meteo_data iso_minute (Some mismatched_record) initial_world
     = (None, st_message (Error_traitement ValueError) initial_world) \<and>
   process_meteo_data iso_minute (Some all_null_record) initial_world
     = (None, st_message Warning_aucune_donnee_valide initial_world) \<and>
   process_meteo_data iso_minute (Some partial_body) initial_world
     = (None, st_message Warning_donnees_incompletes initial_world)"
proof -
  have 1: "process_meteo_data iso_minute (Some mismatched_record) initial_world
     = (None, st_message (Error_traitement ValueError) initial_world)"
    using normalize_failure_diagnostics [where api = mismatched_record
        and h = "[''time'' \<mapsto> [JStr ''2024-06-01T00:00'', JStr ''2024-06-01T01:00''],
                  ''relative_humidity_2m'' \<mapsto> [JNum 50],
                  ''soil_moisture_0_to_1cm'' \<mapsto> [JNum 0.2, JNum 0.3]]"
        and stamps = "[JStr ''2024-06-01T00:00'', JStr ''2024-06-01T01:00'']"
        and air = "[JNum 50]" and soil = "[JNum 0.2, JNum 0.3]"
        and parse = iso_minute and w = initial_world]
    by (simp add: mismatched_record_def)
  have 2: "process_meteo_data iso_minute (Some all_null_record) initial_world
     = (None, st_message Warning_aucune_donnee_valide initial_world)"
    using normalize_failure_diagnostics [where api = all_null_record
        and h = "[''time'' \<mapsto> [JNull, JNull], ''relative_humidity_2m'' \<mapsto> [JNull, JNull],
                  ''soil_moisture_0_to_1cm'' \<mapsto> [JNull, JNull]]"
        and stamps = "[JNull, JNull]" and air = "[JNull, JNull]" and soil = "[JNull, JNull]"
        and parse = iso_minute and w = initial_world]
    by (simp add: all_null_record_def less_Suc_eq)
  have 3: "process_meteo_data iso_minute (Some partial_body) initial_world
     = (None, st_message Warning_donnees_incompletes initial_world)"
    using normalize_failure_diagnostics [where api = partial_body
        and h = "[''time'' \<mapsto> [JStr ''2024-06-01T00:00'', JStr ''2024-06-01T01:00''],
                  ''relative_humidity_2m'' \<mapsto> [JNum 50, JNum 60],
                  ''soil_moisture_0_to_1cm'' \<mapsto> []]"
        and stamps = "[JStr ''2024-06-01T00:00'', JStr ''2024-06-01T01:00'']"
        and air = "[JNum 50, JNum 60]" and soil = "[]"
        and parse = iso_minute and w = initial_world]
    by (simp add: partial_body_def)
  from 1 2 3 show ?thesis by simp
qed

subsection \<open>Weather retrieval\<close>







subsection \<open>The Firebase client\<close>

lemma get_firebase_app_cached:
  "firebase_app w = Some a \<Longrightarrow> get_firebase_app env w = (Some a, w)"
  by (simp add: get_firebase_app_def)

lemma get_firebase_app_try_Inl:
  "get_firebase_app_try env w = Inl (e, w1) \<Longrightarrow>
   firebase_app w1 = firebase_app w \<and> admin_apps w1 = admin_apps w \<and>
   initializations w1 = initializations w \<and> vanne_etat w1 = vanne_etat w \<and> ui w1 = ui w"
  by (auto simp: get_firebase_app_try_def Let_def initializations_def split: option.splits sum.splits)

lemma get_firebase_app_try_Inr:
  assumes "get_firebase_app_try env w = Inr (r, w1)"
  shows "(\<exists>a. r = Some a \<and> firebase_app w1 = Some a \<and> admin_apps w1 = Some a) \<and>
   initializations w1 = (if admin_apps w = None then Suc (initializations w) else initializations w)"
proof (cases "admin_apps w")
  case (Some b)
  with assms have "r = Some b" "w1 = w\<lparr>firebase_app := Some b, lib := lib w @ [Call_get_app]\<rparr>"
    by (auto simp: get_firebase_app_try_def split: option.splits)
  with Some show ?thesis by (simp add: initializations_def)
next
  case None
  with assms obtain b where "initialize_app env = Inr b" "r = Some b"
    "w1 = w\<lparr>lib := lib w @ [Call_Certificate, Call_initialize_app True],
           admin_apps := Some b, firebase_app := Some b\<rparr>"
    by (auto simp: get_firebase_app_try_def Let_def split: option.splits sum.splits)
  with None show ?thesis by (simp add: initializations_def)
qed

lemma get_firebase_app_Some:
  assumes "get_firebase_app env w = (Some a, w')"
  shows "firebase_app w' = Some a"
proof (cases "firebase_app w")
  case (Some b)
  with assms show ?thesis by (simp add: get_firebase_app_def)
next
  case None
  show ?thesis
  proof (cases "isfile env")
    case False
    with None assms show ?thesis by (simp add: get_firebase_app_def)
  next
    case True
    show ?thesis
    proof (cases "get_firebase_app_try env (w\<lparr>firebase_error := None\<rparr>)")
      case (Inl p)
      with None True assms show ?thesis
        by (cases p) (simp add: get_firebase_app_def)
    next
      case (Inr p)
      obtain r w1 where p: "p = (r, w1)" by (cases p)
      from Inr p None True assms have "r = Some a" "w1 = w'"
        by (simp_all add: get_firebase_app_def)
      with get_firebase_app_try_Inr [of env "w\<lparr>firebase_error := None\<rparr>" r w1] Inr p
      show ?thesis by auto
    qed
  qed
qed

lemma get_firebase_app_once: "once w \<Longrightarrow> once (snd (get_firebase_app env w))"
proof -
  assume o: "once w"
  show ?thesis
  proof (cases "firebase_app w = None \<and> isfile env")
    case False
    then show ?thesis using o
      by (auto simp: get_firebase_app_def once_def initializations_def)
  next
    case True
    let ?w0 = "w\<lparr>firebase_error := None\<rparr>"
    have o0: "initializations ?w0 = initializations w" "admin_apps ?w0 = admin_apps w"
      by (simp_all add: initializations_def)
    show ?thesis
    proof (cases "get_firebase_app_try env ?w0")
      case (Inl p)
      obtain e w1 where p: "p = (e, w1)" by (cases p)
      have "snd (get_firebase_app env w) = w1\<lparr>firebase_error := Some (Exception_text e)\<rparr>"
        using True Inl p by (simp add: get_firebase_app_def)
      moreover have "initializations w1 = initializations w" "admin_apps w1 = admin_apps w"
        using get_firebase_app_try_Inl [of env ?w0 e w1] Inl p o0 by simp_all
      ultimately show ?thesis using o by (simp add: once_def initializations_def)
    next
      case (Inr p)
      obtain r w1 where p: "p = (r, w1)" by (cases p)
      have "snd (get_firebase_app env w) = w1"
        using True Inr p by (simp add: get_firebase_app_def)
      moreover have "admin_apps w1 \<noteq> None"
        "initializations w1 = (if admin_apps w = None then Suc (initializations w) else initializations w)"
        using get_firebase_app_try_Inr [of env ?w0 r w1] Inr p o0 by auto
      ultimately show ?thesis using o by (auto simp: once_def)
    qed
  qed
qed

lemma run_once: "once w \<Longrightarrow> once (run steps w)"
proof (induction steps arbitrary: w)
  case Nil
  then show ?case by simp
next
  case (Cons s steps)
  show ?case
  proof (cases s)
    case Rerun
    have "once (module_init w)"
      using Cons.prems by (simp add: once_def module_init_def initializations_def)
    then show ?thesis using Rerun Cons.IH by simp
  next
    case (Get_app env)
    have "once (snd (get_firebase_app env w))" using Cons.prems by (rule get_firebase_app_once)
    then show ?thesis using Get_app Cons.IH by simp
  qed
qed

lemma get_firebase_app_registered:
  assumes "admin_apps w = Some a" and "firebase_app w = None"
  shows "get_firebase_app env w =
     (if \<not> isfile env then (None, w\<lparr>firebase_error := Some Fichier_introuvable\<rparr>)
      else (case import_firebase_admin env of
              Some e \<Rightarrow> (None, w\<lparr>firebase_error := Some (Exception_text e)\<rparr>)
            | None \<Rightarrow>
                (Some a, w\<lparr>firebase_error := None, firebase_app := Some a,
                           lib := lib w @ [Call_get_app]\<rparr>)))"
  using assms
  by (cases "import_firebase_admin env")
     (simp_all add: get_firebase_app_def get_firebase_app_try_def)

lemma get_firebase_app_coherent: "coherent w \<Longrightarrow> coherent (snd (get_firebase_app env w))"
proof -
  assume c: "coherent w"
  show ?thesis
  proof (cases "firebase_app w = None \<and> isfile env")
    case False
    then show ?thesis using c by (auto simp: get_firebase_app_def coherent_def)
  next
    case True
    let ?w0 = "w\<lparr>firebase_error := None\<rparr>"
    show ?thesis
    proof (cases "get_firebase_app_try env ?w0")
      case (Inl p)
      obtain e w1 where p: "p = (e, w1)" by (cases p)
      have "snd (get_firebase_app env w) = w1\<lparr>firebase_error := Some (Exception_text e)\<rparr>"
        using True Inl p by (simp add: get_firebase_app_def)
      moreover have "firebase_app w1 = None"
        using get_firebase_app_try_Inl [of env ?w0 e w1] Inl p True by simp
      ultimately show ?thesis by (simp add: coherent_def)
    next
      case (Inr p)
      obtain r w1 where p: "p = (r, w1)" by (cases p)
      have "snd (get_firebase_app env w) = w1"
        using True Inr p by (simp add: get_firebase_app_def)
      moreover have "firebase_app w1 = admin_apps w1"
        using get_firebase_app_try_Inr [of env ?w0 r w1] Inr p by auto
      ultimately show ?thesis by (simp add: coherent_def)
    qed
  qed
qed

lemma run_coherent: "coherent w \<Longrightarrow> coherent (run steps w)"
proof (induction steps arbitrary: w)
  case Nil
  then show ?case by simp
next
  case (Cons s steps)
  show ?case
  proof (cases s)
    case Rerun
    have "coherent (module_init w)" by (simp add: coherent_def module_init_def)
    then show ?thesis using Rerun Cons.IH by simp
  next
    case (Get_app env)
    have "coherent (snd (get_firebase_app env w))"
      using Cons.prems by (rule get_firebase_app_coherent)
    then show ?thesis using Get_app Cons.IH by simp
  qed
qed

lemma success_registered:
  assumes "coherent w" and "get_firebase_app env w = (Some a, w')"
  shows "registered a w'"
proof -
  have "firebase_app w' = Some a" using assms(2) by (rule get_firebase_app_Some)
  moreover have "coherent w'"
    using get_firebase_app_coherent [OF assms(1), of env] assms(2) by simp
  ultimately show ?thesis by (auto simp: registered_def coherent_def)
qed

lemma get_firebase_app_keeps_registered:
  assumes "registered a w"
  shows "registered a (snd (get_firebase_app env w)) \<and>
         initializations (snd (get_firebase_app env w)) = initializations w \<and>
         fst (get_firebase_app env w) =
           (if firebase_app w = Some a \<or> isfile env \<and> import_firebase_admin env = None
            then Some a else None)"
proof (cases "firebase_app w")
  case (Some b)
  with assms have "b = a" by (simp add: registered_def)
  with Some assms show ?thesis by (simp add: get_firebase_app_cached)
next
  case None
  from assms have r: "admin_apps w = Some a" by (simp add: registered_def)
  show ?thesis
    using None r
    by (cases "import_firebase_admin env")
       (simp_all add: get_firebase_app_registered [OF r None] registered_def initializations_def)
qed

lemma run_keeps_registered:
  "registered a w \<Longrightarrow>
   registered a (run steps w) \<and> initializations (run steps w) = initializations w"
proof (induction steps arbitrary: w)
  case Nil
  then show ?case by simp
next
  case (Cons s steps)
  show ?case
  proof (cases s)
    case Rerun
    have "registered a (module_init w)" "initializations (module_init w) = initializations w"
      using Cons.prems by (simp_all add: registered_def module_init_def initializations_def)
    then show ?thesis using Rerun Cons.IH [of "module_init w"] by simp
  next
    case (Get_app env)
    have "registered a (snd (get_firebase_app env w))"
      "initializations (snd (get_firebase_app env w)) = initializations w"
      using get_firebase_app_keeps_registered [OF Cons.prems, of env] by simp_all
    then show ?thesis using Get_app Cons.IH [of "snd (get_firebase_app env w)"] by simp
  qed
qed

text \<open>
  Claim C5, as amended. \<^verbatim>\<open>firebase_admin.initialize_app\<close> succeeds at most once in
  every history of the process (calls of \<open>get_firebase_app\<close> in arbitrary environments,
  interleaved with reruns of the script, which reset the two module globals). While the
  module global holds a client, a call returns it and changes nothing, whatever the
  environment has become; so a call made in the state a successful call left returns the
  same client with no call into the library. After a successful call, at any later point
  of the history, the registry of the library still holds that client, no call
  initialises again, and a call returns that client exactly when the module global still
  holds it or the credential file exists and the library imports (the client then comes
  from \<^verbatim>\<open>firebase_admin.get_app\<close>); otherwise it returns \<^verbatim>\<open>None\<close>. When no client is held
  and the credential file is absent, the call returns \<^verbatim>\<open>None\<close> and records the
  missing-file diagnostic; it raises nothing.
\<close>

theorem firebase_client_initialized_once:
  "(firebase_app w = Some a \<longrightarrow> get_firebase_app env w = (Some a, w)) \<and>
   (get_firebase_app env w = (Some a, w') \<longrightarrow> get_firebase_app env' w' = (Some a, w')) \<and>
   initializations (run steps initial_world) \<le> 1 \<and>
   (firebase_app w = None \<and> \<not> isfile env \<longrightarrow>
      get_firebase_app env w = (None, w\<lparr>firebase_error := Some Fichier_introuvable\<rparr>)) \<and>
   (get_firebase_app env0 (run before initial_world) = (Some a, w0) \<longrightarrow>
      admin_apps (run after w0) = Some a \<and>
      fst (get_firebase_app env (run after w0)) =
        (if firebase_app (run after w0) = Some a \<or>
            isfile env \<and> import_firebase_admin env = None
         then Some a else None) \<and>
      initializations (snd (get_firebase_app env (run after w0))) = initializations w0)"
proof -
  have 1: "firebase_app w = Some a \<longrightarrow> get_firebase_app env w = (Some a, w)"
    by (simp add: get_firebase_app_cached)
  have 2: "get_firebase_app env w = (Some a, w') \<longrightarrow> get_firebase_app env' w' = (Some a, w')"
    using get_firebase_app_Some [of env w a w'] by (simp add: get_firebase_app_cached)
  have "once initial_world" by (simp add: once_def initializations_def initial_world_def)
  then have "once (run steps initial_world)" by (rule run_once)
  then have 3: "initializations (run steps initial_world) \<le> 1" by (simp add: once_def)
  have 4: "firebase_app w = None \<and> \<not> isfile env \<longrightarrow>
      get_firebase_app env w = (None, w\<lparr>firebase_error := Some Fichier_introuvable\<rparr>)"
    by (simp add: get_firebase_app_def)
  have 5: "admin_apps (run after w0) = Some a \<and>
      fst (get_firebase_app env (run after w0)) =
        (if firebase_app (run after w0) = Some a \<or>
            isfile env \<and> import_firebase_admin env = None
         then Some a else None) \<and>
      initializations (snd (get_firebase_app env (run after w0))) = initializations w0"
    if s: "get_firebase_app env0 (run before initial_world) = (Some a, w0)"
  proof -
    have "coherent initial_world" by (simp add: coherent_def initial_world_def)
    then have "coherent (run before initial_world)" by (rule run_coherent)
    then have "registered a w0" using s by (rule success_registered)
    then have r: "registered a (run after w0)" "initializations (run after w0) = initializations w0"
      using run_keeps_registered [of a w0 after] by simp_all
    from get_firebase_app_keeps_registered [OF r(1), of env] r show ?thesis
      by (simp add: registered_def)
  qed
  from 1 2 3 4 5 show ?thesis by blast
qed

lemma first_call: "get_firebase_app ok_env initial_world = (Some 1, client_ready)"
  by (simp add: get_firebase_app_def get_firebase_app_try_def ok_env_def initial_world_def
      client_ready_def)

text \<open>
  The claim as stated (after one successful initialisation every later call returns the
  cached client) fails once the script has been rerun and the credential file is gone:
  the file test comes before the registry of the library is consulted, and the call
  returns \<^verbatim>\<open>None\<close> with the missing-file diagnostic.
\<close>

theorem later_call_after_rerun_counterexample:
  "fst (get_firebase_app ok_env initial_world) = Some 1 \<and>
   get_firebase_app no_file_env (run [Get_app ok_env, Rerun] initial_world)
     = (None, client_ready\<lparr>firebase_app := None, firebase_error := Some Fichier_introuvable\<rparr>)"
proof -
  have "get_firebase_app no_file_env (client_ready\<lparr>firebase_app := None, firebase_error := None\<rparr>)
      = (None, client_ready\<lparr>firebase_app := None, firebase_error := Some Fichier_introuvable\<rparr>)"
    by (simp add: get_firebase_app_def no_file_env_def ok_env_def)
  then show ?thesis by (simp add: first_call module_init_def)
qed

theorem firebase_client_initialized_once_witness:
  "get_firebase_app ok_env initial_world = (Some 1, client_ready) \<and>
   get_firebase_app no_file_env client_ready = (Some 1, client_ready) \<and>
   get_firebase_app bad_credentials_env client_ready = (Some 1, client_ready) \<and>
   initializations (run [Get_app ok_env, Rerun, Get_app ok_env, Get_app ok_env] initial_world) \<le> 1 \<and>
   get_firebase_app no_file_env initial_world
     = (None, initial_world\<lparr>firebase_error := Some Fichier_introuvable\<rparr>) \<and>
   fst (get_firebase_app bad_credentials_env (run [Rerun] client_ready)) = Some 1 \<and>
   fst (get_firebase_app no_library_env (run [Rerun] client_ready)) = None \<and>
   initializations (snd (get_firebase_app bad_credentials_env (run [Rerun] client_ready))) = 1"
proof -
  note t = firebase_client_initialized_once
  have a: "get_firebase_app no_file_env client_ready = (Some 1, client_ready)"
    using t [where w = initial_world and env = ok_env and a = 1 and w' = client_ready
        and env' = no_file_env] first_call by simp
  have b: "get_firebase_app bad_credentials_env client_ready = (Some 1, client_ready)"
    using t [where w = client_ready and a = 1 and env = bad_credentials_env]
    by (simp add: client_ready_def initial_world_def)
  have c: "initializations (run [Get_app ok_env, Rerun, Get_app ok_env, Get_app ok_env] initial_world) \<le> 1"
    using t [where steps = "[Get_app ok_env, Rerun, Get_app ok_env, Get_app ok_env]"] by simp
  have d: "get_firebase_app no_file_env initial_world
     = (None, initial_world\<lparr>firebase_error := Some Fichier_introuvable\<rparr>)"
    using t [where w = initial_world and env = no_file_env]
    by (simp add: initial_world_def no_file_env_def ok_env_def)
  have s: "get_firebase_app ok_env (run [] initial_world) = (Some 1, client_ready)"
    using first_call by simp
  have fa: "firebase_app (run [Rerun] client_ready) = None"
    by (simp add: module_init_def)
  have i: "initializations client_ready = 1"
    by (simp add: initializations_def client_ready_def initial_world_def)
  have e: "fst (get_firebase_app bad_credentials_env (run [Rerun] client_ready)) = Some 1 \<and>
      initializations (snd (get_firebase_app bad_credentials_env (run [Rerun] client_ready))) = 1"
    using t [where ?env0.0 = ok_env and before = "[]" and a = 1 and ?w0.0 = client_ready
        and after = "[Rerun]" and env = bad_credentials_env] s fa i
    by (simp add: bad_credentials_env_def ok_env_def)
  have f: "fst (get_firebase_app no_library_env (run [Rerun] client_ready)) = None"
    using t [where ?env0.0 = ok_env and before = "[]" and a = 1 and ?w0.0 = client_ready
        and after = "[Rerun]" and env = no_library_env] s fa
    by (simp add: no_library_env_def ok_env_def)
  from first_call a b c d e f show ?thesis by simp
qed

lemma get_firebase_app_uncached:
  "firebase_app w = None \<Longrightarrow>
   get_firebase_app env w =
     (if \<not> isfile env then (None, w\<lparr>firebase_error := Some Fichier_introuvable\<rparr>)
      else (case get_firebase_app_try env (w\<lparr>firebase_error := None\<rparr>) of
              Inl (e, w2) \<Rightarrow> (None, w2\<lparr>firebase_error := Some (Exception_text e)\<rparr>)
            | Inr r \<Rightarrow> r))"
  by (simp add: get_firebase_app_def)

text \<open>
  Claim C10. When no client is held, the credential file exists and the \<^verbatim>\<open>try\<close> block
  of \<open>get_firebase_app\<close> raises \<open>e\<close> (the import, \<^verbatim>\<open>credentials.Certificate\<close> or
  \<^verbatim>\<open>initialize_app\<close> failed), the call returns \<^verbatim>\<open>None\<close>, records \<^verbatim>\<open>str(e)\<close>, and
  caches nothing: neither the module global nor the registry of the library holds a
  client afterwards. The next call, in any environment, therefore runs the whole
  initialisation again (the file test, then the \<^verbatim>\<open>try\<close> block), and the diagnostic it
  leaves is its own: the earlier one is overwritten.
\<close>

theorem failed_initialization_not_memoized:
  assumes "firebase_app w = None" and "isfile env"
    and "get_firebase_app_try env (w\<lparr>firebase_error := None\<rparr>) = Inl (e, w1)"
  shows "get_firebase_app env w = (None, w1\<lparr>firebase_error := Some (Exception_text e)\<rparr>) \<and>
         firebase_app (snd (get_firebase_app env w)) = None \<and>
         admin_apps (snd (get_firebase_app env w)) = admin_apps w \<and>
         get_firebase_app env' (snd (get_firebase_app env w)) =
           (if \<not> isfile env' then
              (None, w1\<lparr>firebase_error := Some Fichier_introuvable\<rparr>)
            else
              (case get_firebase_app_try env' (w1\<lparr>firebase_error := None\<rparr>) of
                 Inl (e', w2) \<Rightarrow> (None, w2\<lparr>firebase_error := Some (Exception_text e')\<rparr>)
               | Inr r \<Rightarrow> r))"
proof -
  let ?w2 = "w1\<lparr>firebase_error := Some (Exception_text e)\<rparr>"
  have r: "get_firebase_app env w = (None, ?w2)"
    using assms by (simp add: get_firebase_app_uncached)
  have keep: "firebase_app w1 = None" "admin_apps w1 = admin_apps w"
    using get_firebase_app_try_Inl [OF assms(3)] assms(1) by simp_all
  have "get_firebase_app env' ?w2 =
           (if \<not> isfile env' then
              (None, ?w2\<lparr>firebase_error := Some Fichier_introuvable\<rparr>)
            else
              (case get_firebase_app_try env' (?w2\<lparr>firebase_error := None\<rparr>) of
                 Inl (e', w2) \<Rightarrow> (None, w2\<lparr>firebase_error := Some (Exception_text e')\<rparr>)
               | Inr r \<Rightarrow> r))"
    using keep by (intro get_firebase_app_uncached) simp
  then show ?thesis using r keep by simp
qed

theorem failed_initialization_not_memoized_witness:
  "get_firebase_app bad_credentials_env initial_world = (None, failed_once) \<and>
   firebase_app failed_once = None \<and>
   get_firebase_app no_library_env failed_once
     = (None, failed_once\<lparr>firebase_error := Some (Exception_text ImportError)\<rparr>) \<and>
   get_firebase_app ok_env failed_once
     = (Some 1, initial_world\<lparr>firebase_app := Some 1, admin_apps := Some 1,
          lib := [Call_Certificate, Call_Certificate, Call_initialize_app True]\<rparr>)"
proof -
  have tr: "get_firebase_app_try bad_credentials_env (initial_world\<lparr>firebase_error := None\<rparr>)
        = Inl (ValueError, initial_world\<lparr>lib := [Call_Certificate]\<rparr>)"
    by (simp add: get_firebase_app_try_def bad_credentials_env_def ok_env_def initial_world_def)
  note t = failed_initialization_not_memoized [where w = initial_world
      and env = bad_credentials_env and e = ValueError
      and ?w1.0 = "initial_world\<lparr>lib := [Call_Certificate]\<rparr>", OF _ _ tr]
  have p: "firebase_app initial_world = None" "isfile bad_credentials_env"
    by (simp_all add: initial_world_def bad_credentials_env_def ok_env_def)
  have w: "initial_world\<lparr>lib := [Call_Certificate], firebase_error := Some (Exception_text ValueError)\<rparr>
        = failed_once"
    by (simp add: failed_once_def initial_world_def)
  have 1: "get_firebase_app bad_credentials_env initial_world = (None, failed_once)"
    using t [OF p, of ok_env] w by simp
  have 2: "get_firebase_app no_library_env failed_once
     = (None, failed_once\<lparr>firebase_error := Some (Exception_text ImportError)\<rparr>)"
    using t [OF p, of no_library_env]
    by (simp add: get_firebase_app_def get_firebase_app_try_def no_library_env_def
        bad_credentials_env_def ok_env_def initial_world_def failed_once_def)
  have 3: "get_firebase_app ok_env failed_once
     = (Some 1, initial_world\<lparr>firebase_app := Some 1, admin_apps := Some 1,
          lib := [Call_Certificate, Call_Certificate, Call_initialize_app True]\<rparr>)"
    using t [OF p, of ok_env]
    by (simp add: get_firebase_app_def get_firebase_app_try_def bad_credentials_env_def
        ok_env_def initial_world_def failed_once_def)
  from 1 2 3 show ?thesis by (simp add: failed_once_def initial_world_def)
qed

subsection \<open>The valve flag\<close>


lemma write_unfold:
  "firebase_set_vanne_etat etat env w =
     (case get_firebase_app env w of
        (app, w1) \<Rightarrow>
          if app = None then (False, w1)
          else (case import_db env of
                  Some e \<Rightarrow> (False, w1)
                | None \<Rightarrow>
                    (case db_update env of
                       Some e \<Rightarrow> (False, w1\<lparr>lib := lib w1 @ [Call_db_update etat]\<rparr>)
                     | None \<Rightarrow> (True, w1\<lparr>lib := lib w1 @ [Call_db_update etat]\<rparr>))))"
  by (cases "get_firebase_app env w"; cases "fst (get_firebase_app env w)";
      cases "import_db env"; cases "db_update env")
     (simp_all add: firebase_set_vanne_etat_def firebase_set_vanne_etat_try_def Let_def)



text \<open>
  Claim C7. For every boolean, \<open>firebase_set_vanne_etat\<close> returns a boolean and raises
  nothing: \<open>False\<close> when no client is available, \<open>False\<close> when the import of the database
  module or the remote write raises, and \<open>True\<close> exactly when a client is available and
  both succeed.
\<close>

theorem write_flag_returns_success:
  "(fst (get_firebase_app env w) = None \<longrightarrow> fst (firebase_set_vanne_etat etat env w) = False) \<and>
   (import_db env = Some e \<or> db_update env = Some e \<longrightarrow>
      fst (firebase_set_vanne_etat etat env w) = False) \<and>
   (fst (firebase_set_vanne_etat etat env w) \<longleftrightarrow>
      fst (get_firebase_app env w) \<noteq> None \<and> import_db env = None \<and> db_update env = None)"
proof -
  have 3: "fst (firebase_set_vanne_etat etat env w) \<longleftrightarrow>
      fst (get_firebase_app env w) \<noteq> None \<and> import_db env = None \<and> db_update env = None"
    by (cases "get_firebase_app env w"; cases "import_db env"; cases "db_update env")
       (simp_all add: write_unfold)
  then show ?thesis by auto
qed

theorem write_flag_returns_success_witness:
  "fst (firebase_set_vanne_etat True no_file_env initial_world) = False \<and>
   fst (firebase_set_vanne_etat True write_fails_env client_ready) = False \<and>
   fst (firebase_set_vanne_etat True ok_env client_ready) = True \<and>
   fst (firebase_set_vanne_etat False ok_env client_ready) = True"
proof -
  note t = write_flag_returns_success
  have g: "get_firebase_app no_file_env initial_world
      = (None, initial_world\<lparr>firebase_error := Some Fichier_introuvable\<rparr>)"
    by (simp add: get_firebase_app_def no_file_env_def ok_env_def initial_world_def)
  have c: "get_firebase_app ok_env client_ready = (Some 1, client_ready)"
    by (simp add: get_firebase_app_def client_ready_def)
  have 1: "fst (firebase_set_vanne_etat True no_file_env initial_world) = False"
    using t [where env = no_file_env and w = initial_world and etat = True] g by simp
  have 2: "fst (firebase_set_vanne_etat True write_fails_env client_ready) = False"
    using t [where env = write_fails_env and w = client_ready and etat = True
        and e = OtherException]
    by (simp add: write_fails_env_def ok_env_def)
  have 3: "fst (firebase_set_vanne_etat True ok_env client_ready) = True"
    using t [where env = ok_env and w = client_ready and etat = True] c
    by (simp add: ok_env_def)
  have 4: "fst (firebase_set_vanne_etat False ok_env client_ready) = True"
    using t [where env = ok_env and w = client_ready and etat = False] c
    by (simp add: ok_env_def)
  from 1 2 3 4 show ?thesis by simp
qed

end
